theory Spec2Isabelle
  imports Main "HOL-Library.Word"
begin

section \<open>The TLS certificate authority (obc-ca/obcca/tlsca.go)\<close>

text \<open>
  A shallow embedding of the public and the administrator interface of the TLSCA.
  Each method becomes a function that returns what the Go method returns (or the
  panic that ends it), the request object as the method leaves it, the authority as the
  method leaves it, and the calls the method made to its collaborators, in order.
\<close>

subsection \<open>Values\<close>

text \<open>A Go \<^verbatim>\<open>[]byte\<close> is a list of 8-bit characters; a Go \<^verbatim>\<open>string\<close> likewise.\<close>

type_synonym bytes = "char list"

text \<open>
  An \<^verbatim>\<open>error\<close> value is identified by its message, as \<^verbatim>\<open>errors.New\<close> builds it.
\<close>

datatype error = errors_New string

fun Error_msg :: "error \<Rightarrow> string" where
  "Error_msg (errors_New m) = m"

text \<open>
  A method either returns, with Go's pair \<^verbatim>\<open>(nil, err)\<close> as \<open>Inl err\<close> and
  \<^verbatim>\<open>(value, nil)\<close> as \<open>Inr value\<close>, or it panics: on a field read through a nil
  pointer, or on a failed type assertion \<^verbatim>\<open>pub.(*ecdsa.PublicKey)\<close>.
\<close>

datatype panic = nil_pointer_dereference | interface_conversion

datatype 'a outcome = Panics panic | Returns "error + 'a"

subsection \<open>Messages of the protos package\<close>

text \<open>
  Modelled from the spec: the message types of the package \<^verbatim>\<open>pb\<close> (section 3 of the
  specification: a request has an identity, a public key made of an algorithm tag and raw
  bytes, a requested validity and a signature \<open>(r, s)\<close> carried as text), with the field
  names the source uses. tlsca.go assigns \<^verbatim>\<open>nil\<close> to \<^verbatim>\<open>req.Sig\<close>: fields that hold a
  message are pointers, so each of them may be absent (\<open>None\<close>). A field name that
  several messages share carries the message's name in front.
\<close>

datatype CryptoType = CryptoType_ECDSA | CryptoType_RSA | CryptoType_DSA

record Identity =
  Identity_Id :: string

record PublicKey =
  PublicKey_Type :: CryptoType
  Key :: bytes

record Signature =
  R :: bytes
  S :: bytes

record Timestamp =
  Seconds :: "64 word"

record TLSCertCreateReq =
  Ts :: "Timestamp option"
  CreateReq_Id :: "Identity option"
  Pub :: "PublicKey option"
  Sig :: "Signature option"

record TLSCertReadReq =
  ReadReq_Id :: "Identity option"

text \<open>
  The responses are built with positional literals, \<^verbatim>\<open>&pb.Cert{raw}\<close> and
  \<^verbatim>\<open>&pb.TLSCertCreateResp{&pb.Cert{raw}}\<close>.
\<close>

datatype Cert = Cert bytes

datatype TLSCertCreateResp = TLSCertCreateResp Cert

subsection \<open>Keys of the standard library\<close>

text \<open>
  \<^verbatim>\<open>x509.ParsePKIXPublicKey\<close> returns an \<^verbatim>\<open>interface{}\<close> that holds a pointer to an
  RSA, a DSA or an ECDSA public key.
\<close>

datatype Curve = P224 | P256 | P384 | P521

record ecdsa_PublicKey =
  ecdsa_Curve :: Curve
  ecdsa_X :: int
  ecdsa_Y :: int

record rsa_PublicKey =
  rsa_N :: int
  rsa_E :: int

record dsa_PublicKey =
  dsa_Y :: int

datatype any_key =
    ptr_ecdsa_PublicKey ecdsa_PublicKey
  | ptr_rsa_PublicKey rsa_PublicKey
  | ptr_dsa_PublicKey dsa_PublicKey

text \<open>\<^verbatim>\<open>x509.KeyUsage\<close>, in the order of the constants of crypto/x509.\<close>

datatype KeyUsage =
    KeyUsageDigitalSignature
  | KeyUsageContentCommitment
  | KeyUsageKeyEncipherment
  | KeyUsageDataEncipherment
  | KeyUsageKeyAgreement
  | KeyUsageCertSign
  | KeyUsageCRLSign
  | KeyUsageEncipherOnly
  | KeyUsageDecipherOnly

subsection \<open>The authority and its two interfaces\<close>

text \<open>
  Modelled from the spec: the type \<^verbatim>\<open>CA\<close> (section 6: the authority bootstrap supplies
  the raw root-certificate bytes; the certificate store is behind \<^verbatim>\<open>createCertificate\<close>
  and \<^verbatim>\<open>readCertificate\<close>). \<open>db\<close> is the state of the store.
\<close>

record 'db CA =
  raw :: bytes
  db :: 'db

text \<open>
  \<^verbatim>\<open>type TLSCA struct { *CA; eca *ECA }\<close>: the embedded CA is the parent record. The
  two interfaces are built by \<^verbatim>\<open>startTLSCAP\<close> and \<^verbatim>\<open>startTLSCAA\<close> around the authority
  that \<^verbatim>\<open>NewTLSCA\<close> returns, so their \<^verbatim>\<open>tlsca\<close> is a value here, never nil.
\<close>

record ('db, 'eca) TLSCA = "'db CA" +
  eca :: 'eca

record ('db, 'eca) TLSCAP =
  tlsca :: "('db, 'eca) TLSCA"

record ('db, 'eca) TLSCAA =
  tlsca_a :: "('db, 'eca) TLSCA"

subsection \<open>Collaborators\<close>

text \<open>
  The loggers of the package, and the calls a method makes to code outside this file.
  A call is recorded with its arguments; for \<^verbatim>\<open>hash.Sum\<close> the digest it returns is
  recorded.
\<close>

datatype logger = Trace | Info | Error

datatype call =
    CallPrintln logger string
  | CallUnmarshalText bytes
  | CallParsePKIXPublicKey bytes
  | CallMarshal TLSCertCreateReq
  | CallHashWrite bytes
  | CallHashSum bytes
  | CallVerify ecdsa_PublicKey bytes int int
  | CallCreateCertificate string ecdsa_PublicKey KeyUsage "64 word"
  | CallReadCertificate string KeyUsage

text \<open>
  The functions behind these calls are parameters of the model:
  \<^item> \<open>big_UnmarshalText z text\<close> is \<^verbatim>\<open>z.UnmarshalText(text)\<close>: the value it leaves in
    the receiver and the error it returns;
  \<^item> \<open>x509_ParsePKIXPublicKey der\<close> returns the key or the error;
  \<^item> \<open>proto_Marshal req\<close> returns the bytes and the error;
  \<^item> \<open>sha3_384 bs\<close> is the SHA3-384 digest of everything written to the hash;
  \<^item> \<open>ecdsa_Verify pub digest r s\<close>;
  \<^item> \<open>ca_createCertificate\<close> and \<open>ca_readCertificate\<close> are the methods of \<^verbatim>\<open>CA\<close>
    that the TLSCA reaches through the embedded pointer; they take the authority and
    return it as they leave it.
\<close>

record ('db, 'eca) env =
  big_UnmarshalText :: "int \<Rightarrow> bytes \<Rightarrow> int \<times> error option"
  x509_ParsePKIXPublicKey :: "bytes \<Rightarrow> error + any_key"
  proto_Marshal :: "TLSCertCreateReq \<Rightarrow> bytes \<times> error option"
  sha3_384 :: "bytes \<Rightarrow> bytes"
  ecdsa_Verify :: "ecdsa_PublicKey \<Rightarrow> bytes \<Rightarrow> int \<Rightarrow> int \<Rightarrow> bool"
  ca_createCertificate ::
    "('db, 'eca) TLSCA \<Rightarrow> string \<Rightarrow> ecdsa_PublicKey \<Rightarrow> KeyUsage \<Rightarrow> 64 word
      \<Rightarrow> (error + bytes) \<times> ('db, 'eca) TLSCA"
  ca_readCertificate ::
    "('db, 'eca) TLSCA \<Rightarrow> string \<Rightarrow> KeyUsage \<Rightarrow> (error + bytes) \<times> ('db, 'eca) TLSCA"

text \<open>
  The hash object: \<^verbatim>\<open>sha3.New384()\<close> has absorbed nothing, \<^verbatim>\<open>Write\<close> absorbs its
  argument, \<^verbatim>\<open>Sum(b)\<close> appends the digest of what was absorbed to \<open>b\<close>.
\<close>

definition sha3_New384 :: bytes where
  "sha3_New384 = []"

definition hash_Write :: "bytes \<Rightarrow> bytes \<Rightarrow> bytes" where
  "hash_Write h p = h @ p"

definition hash_Sum :: "('db, 'eca) env \<Rightarrow> bytes \<Rightarrow> bytes \<Rightarrow> bytes" where
  "hash_Sum E h b = b @ sha3_384 E h"

text \<open>What a method leaves behind.\<close>

record ('a, 'r, 'db, 'eca) exec =
  result :: "'a outcome"
  request :: 'r
  authority :: "('db, 'eca) TLSCA"
  calls :: "call list"

text \<open>The calls that reach the certificate store.\<close>

fun store_call :: "call \<Rightarrow> bool" where
  "store_call (CallCreateCertificate i k u t) = True"
| "store_call (CallReadCertificate i u) = True"
| "store_call c = False"

text \<open>The calls that hash or verify.\<close>

fun crypto_call :: "call \<Rightarrow> bool" where
  "crypto_call (CallMarshal q) = True"
| "crypto_call (CallHashWrite b) = True"
| "crypto_call (CallHashSum d) = True"
| "crypto_call (CallVerify k d r s) = True"
| "crypto_call c = False"

text \<open>The byte strings written to the hash, in order.\<close>

fun hashed :: "call list \<Rightarrow> bytes list" where
  "hashed [] = []"
| "hashed (CallHashWrite b # cs) = b # hashed cs"
| "hashed (c # cs) = hashed cs"

subsection \<open>The methods\<close>

text \<open>\<^verbatim>\<open>func (tlscap *TLSCAP) ReadCACertificate(ctx, in *pb.Empty) (*pb.Cert, error)\<close>\<close>

definition TLSCAP_ReadCACertificate ::
  "('db, 'eca) TLSCAP \<Rightarrow> 'ctx \<Rightarrow> 'empty \<Rightarrow> (Cert, 'empty, 'db, 'eca) exec" where
  "TLSCAP_ReadCACertificate tlscap ctx inp =
     \<lparr> result = Returns (Inr (Cert (raw (tlsca tlscap)))),
       request = inp,
       authority = tlsca tlscap,
       calls = [CallPrintln Trace ''grpc TLSCAP:ReadCACertificate''] \<rparr>"

text \<open>
  \<^verbatim>\<open>func (tlscap *TLSCAP) CreateCertificate(ctx, req *pb.TLSCertCreateReq)\<close>, statement
  by statement. \<open>req1\<close> is the request after \<^verbatim>\<open>req.Sig = nil\<close>; the method writes it
  through the pointer it was given. The errors of \<^verbatim>\<open>UnmarshalText\<close> and of
  \<^verbatim>\<open>proto.Marshal\<close> are dropped, as the source drops them. The arguments of
  \<^verbatim>\<open>ecdsa.Verify\<close> are evaluated from left to right, so the type assertion comes before
  \<^verbatim>\<open>hash.Sum\<close>; the arguments of \<^verbatim>\<open>createCertificate\<close> likewise, so \<^verbatim>\<open>req.Ts.Seconds\<close>
  is read before the store is called.
\<close>

definition TLSCAP_CreateCertificate ::
  "('db, 'eca) env \<Rightarrow> ('db, 'eca) TLSCAP \<Rightarrow> 'ctx \<Rightarrow> TLSCertCreateReq
     \<Rightarrow> (TLSCertCreateResp, TLSCertCreateReq, 'db, 'eca) exec" where
  "TLSCAP_CreateCertificate E tlscap ctx req =
    (let c0 = [CallPrintln Trace ''grpc TLSCAP:CreateCertificate''] in
     case CreateReq_Id req of
       None \<Rightarrow> \<lparr> result = Panics nil_pointer_dereference, request = req,
                 authority = tlsca tlscap, calls = c0 \<rparr>
     | Some ident \<Rightarrow>
    (let id = Identity_Id ident;
         sig = Sig req;
         req1 = req \<lparr> Sig := None \<rparr> in
     case sig of
       None \<Rightarrow> \<lparr> result = Panics nil_pointer_dereference, request = req1,
                 authority = tlsca tlscap, calls = c0 \<rparr>
     | Some sg \<Rightarrow>
    (let r = fst (big_UnmarshalText E 0 (R sg));
         s = fst (big_UnmarshalText E 0 (S sg));
         c1 = c0 @ [CallUnmarshalText (R sg), CallUnmarshalText (S sg)] in
     case Pub req1 of
       None \<Rightarrow> \<lparr> result = Panics nil_pointer_dereference, request = req1,
                 authority = tlsca tlscap, calls = c1 \<rparr>
     | Some pk \<Rightarrow>
     if PublicKey_Type pk \<noteq> CryptoType_ECDSA
     then \<lparr> result = Returns (Inl (errors_New ''unsupported key type'')), request = req1,
            authority = tlsca tlscap, calls = c1 \<rparr>
     else
    (let c2 = c1 @ [CallParsePKIXPublicKey (Key pk)] in
     case x509_ParsePKIXPublicKey E (Key pk) of
       Inl err \<Rightarrow> \<lparr> result = Returns (Inl err), request = req1,
                    authority = tlsca tlscap, calls = c2 \<rparr>
     | Inr pub \<Rightarrow>
    (let hash = sha3_New384;
         raw1 = fst (proto_Marshal E req1);
         hash = hash_Write hash raw1;
         c3 = c2 @ [CallMarshal req1, CallHashWrite raw1] in
     case pub of
       ptr_ecdsa_PublicKey key \<Rightarrow>
        (let digest = hash_Sum E hash [];
             c4 = c3 @ [CallHashSum digest, CallVerify key digest r s] in
         if ecdsa_Verify E key digest r s = False
         then \<lparr> result = Returns (Inl (errors_New ''signature does not verify'')),
                request = req1, authority = tlsca tlscap, calls = c4 \<rparr>
         else
         case Ts req1 of
           None \<Rightarrow> \<lparr> result = Panics nil_pointer_dereference, request = req1,
                     authority = tlsca tlscap, calls = c4 \<rparr>
         | Some ts \<Rightarrow>
        (let c5 = c4 @ [CallCreateCertificate id key KeyUsageKeyAgreement (Seconds ts)] in
         case ca_createCertificate E (tlsca tlscap) id key KeyUsageKeyAgreement (Seconds ts) of
           (Inl err, ca') \<Rightarrow>
             \<lparr> result = Returns (Inl err), request = req1, authority = ca',
               calls = c5 @ [CallPrintln Error (Error_msg err)] \<rparr>
         | (Inr raw2, ca') \<Rightarrow>
             \<lparr> result = Returns (Inr (TLSCertCreateResp (Cert raw2))), request = req1,
               authority = ca', calls = c5 \<rparr>))
     | ptr_rsa_PublicKey k \<Rightarrow>
         \<lparr> result = Panics interface_conversion, request = req1,
           authority = tlsca tlscap, calls = c3 \<rparr>
     | ptr_dsa_PublicKey k \<Rightarrow>
         \<lparr> result = Panics interface_conversion, request = req1,
           authority = tlsca tlscap, calls = c3 \<rparr>)))))"

text \<open>\<^verbatim>\<open>func (tlscap *TLSCAP) ReadCertificate(ctx, req *pb.TLSCertReadReq) (*pb.Cert, error)\<close>\<close>

definition TLSCAP_ReadCertificate ::
  "('db, 'eca) env \<Rightarrow> ('db, 'eca) TLSCAP \<Rightarrow> 'ctx \<Rightarrow> TLSCertReadReq
     \<Rightarrow> (Cert, TLSCertReadReq, 'db, 'eca) exec" where
  "TLSCAP_ReadCertificate E tlscap ctx req =
    (let c0 = [CallPrintln Trace ''grpc TLSCAP:ReadCertificate''] in
     case ReadReq_Id req of
       None \<Rightarrow> \<lparr> result = Panics nil_pointer_dereference, request = req,
                 authority = tlsca tlscap, calls = c0 \<rparr>
     | Some ident \<Rightarrow>
    (let c1 = c0 @ [CallReadCertificate (Identity_Id ident) KeyUsageKeyAgreement] in
     case ca_readCertificate E (tlsca tlscap) (Identity_Id ident) KeyUsageKeyAgreement of
       (Inl err, ca') \<Rightarrow>
         \<lparr> result = Returns (Inl err), request = req, authority = ca', calls = c1 \<rparr>
     | (Inr raw1, ca') \<Rightarrow>
         \<lparr> result = Returns (Inr (Cert raw1)), request = req, authority = ca',
           calls = c1 \<rparr>))"

text \<open>
  \<^verbatim>\<open>func (tlscap *TLSCAP) RevokeCertificate(context.Context, *pb.TLSCertRevokeReq)\<close> and
  \<^verbatim>\<open>func (tlscaa *TLSCAA) RevokeCertificate(context.Context, *pb.TLSCertRevokeReq)\<close>:
  neither names its parameters. \<open>'status\<close> is \<^verbatim>\<open>pb.CAStatus\<close>, never built.
\<close>

definition TLSCAP_RevokeCertificate ::
  "('db, 'eca) TLSCAP \<Rightarrow> 'ctx \<Rightarrow> 'req \<Rightarrow> ('status, 'req, 'db, 'eca) exec" where
  "TLSCAP_RevokeCertificate tlscap ctx req =
     \<lparr> result = Returns (Inl (errors_New ''not yet implemented'')),
       request = req,
       authority = tlsca tlscap,
       calls = [CallPrintln Trace ''grpc TLSCAP:RevokeCertificate''] \<rparr>"

definition TLSCAA_RevokeCertificate ::
  "('db, 'eca) TLSCAA \<Rightarrow> 'ctx \<Rightarrow> 'req \<Rightarrow> ('status, 'req, 'db, 'eca) exec" where
  "TLSCAA_RevokeCertificate tlscaa ctx req =
     \<lparr> result = Returns (Inl (errors_New ''not yet implemented'')),
       request = req,
       authority = tlsca_a tlscaa,
       calls = [CallPrintln Trace ''grpc TLSCAA:RevokeCertificate''] \<rparr>"

subsection \<open>Test doubles of the collaborators\<close>

text \<open>
  Stand-ins for the library and the store, small enough to evaluate, on which the
  theorems below are instantiated. \<open>double_UnmarshalText\<close> reads unsigned decimal text
  the way \<^verbatim>\<open>math/big\<close> scans it: the digits in front are accumulated in the receiver,
  and an error is returned when no digit was read or text is left over; the digits read
  before the error stay in the receiver.
\<close>

fun digit_val :: "char \<Rightarrow> int option" where
  "digit_val c =
     (if c = CHR ''0'' then Some 0 else if c = CHR ''1'' then Some 1
      else if c = CHR ''2'' then Some 2 else if c = CHR ''3'' then Some 3
      else if c = CHR ''4'' then Some 4 else if c = CHR ''5'' then Some 5
      else if c = CHR ''6'' then Some 6 else if c = CHR ''7'' then Some 7
      else if c = CHR ''8'' then Some 8 else if c = CHR ''9'' then Some 9
      else None)"

fun scan_digits :: "int \<Rightarrow> bytes \<Rightarrow> int \<times> bytes" where
  "scan_digits z [] = (z, [])"
| "scan_digits z (c # cs) =
     (case digit_val c of
        None \<Rightarrow> (z, c # cs)
      | Some d \<Rightarrow> scan_digits (10 * z + d) cs)"

definition double_UnmarshalText :: "int \<Rightarrow> bytes \<Rightarrow> int \<times> error option" where
  "double_UnmarshalText z text =
     (case scan_digits 0 text of
        (v, rest) \<Rightarrow>
          if text = [] then (z, Some (errors_New ''math/big: cannot unmarshal''))
          else if rest = text then (0, Some (errors_New ''math/big: cannot unmarshal''))
          else if rest = [] then (v, None)
          else (v, Some (errors_New ''math/big: cannot unmarshal'')))"

definition double_ParsePKIXPublicKey :: "bytes \<Rightarrow> error + any_key" where
  "double_ParsePKIXPublicKey der =
     (if der = ''EC'' then
        Inr (ptr_ecdsa_PublicKey \<lparr> ecdsa_Curve = P384, ecdsa_X = 5, ecdsa_Y = 7 \<rparr>)
      else if der = ''RSA'' then
        Inr (ptr_rsa_PublicKey \<lparr> rsa_N = 3233, rsa_E = 17 \<rparr>)
      else Inl (errors_New ''asn1: syntax error''))"

definition double_Marshal :: "TLSCertCreateReq \<Rightarrow> bytes \<times> error option" where
  "double_Marshal req =
     ((case CreateReq_Id req of None \<Rightarrow> [] | Some i \<Rightarrow> Identity_Id i)
      @ (case Pub req of None \<Rightarrow> [] | Some pk \<Rightarrow> Key pk)
      @ (case Sig req of None \<Rightarrow> [] | Some sg \<Rightarrow> R sg @ S sg), None)"

definition double_Verify :: "ecdsa_PublicKey \<Rightarrow> bytes \<Rightarrow> int \<Rightarrow> int \<Rightarrow> bool" where
  "double_Verify pub digest r s \<longleftrightarrow>
     r = ecdsa_X pub + int (length digest) \<and> s = ecdsa_Y pub"

type_synonym double_db = "(string \<times> bytes) list"

definition double_createCertificate ::
  "(double_db, unit) TLSCA \<Rightarrow> string \<Rightarrow> ecdsa_PublicKey \<Rightarrow> KeyUsage \<Rightarrow> 64 word
     \<Rightarrow> (error + bytes) \<times> (double_db, unit) TLSCA" where
  "double_createCertificate ca name pub usage secs =
     (if name = [] then (Inl (errors_New ''empty id''), ca)
      else (Inr (''cert-'' @ name), ca \<lparr> db := (name, ''cert-'' @ name) # db ca \<rparr>))"

definition double_readCertificate ::
  "(double_db, unit) TLSCA \<Rightarrow> string \<Rightarrow> KeyUsage
     \<Rightarrow> (error + bytes) \<times> (double_db, unit) TLSCA" where
  "double_readCertificate ca name usage =
     (case map_of (db ca) name of
        None \<Rightarrow> (Inl (errors_New ''sql: no rows in result set''), ca)
      | Some c \<Rightarrow> (Inr c, ca))"

definition double :: "(double_db, unit) env" where
  "double =
     \<lparr> big_UnmarshalText = double_UnmarshalText,
       x509_ParsePKIXPublicKey = double_ParsePKIXPublicKey,
       proto_Marshal = double_Marshal,
       sha3_384 = rev,
       ecdsa_Verify = double_Verify,
       ca_createCertificate = double_createCertificate,
       ca_readCertificate = double_readCertificate \<rparr>"

text \<open>An authority with an empty store, and its two interfaces.\<close>

definition tlsca0 :: "(double_db, unit) TLSCA" where
  "tlsca0 = \<lparr> raw = ''root'', db = [], eca = () \<rparr>"

definition tlscap0 :: "(double_db, unit) TLSCAP" where
  "tlscap0 = \<lparr> tlsca = tlsca0 \<rparr>"

definition tlscaa0 :: "(double_db, unit) TLSCAA" where
  "tlscaa0 = \<lparr> tlsca_a = tlsca0 \<rparr>"

text \<open>
  Requests of ``alice'' for one hour: with the signature the double accepts, with text
  left over after \<open>r\<close>, with a wrong \<open>s\<close>, without a signature under an RSA tag, with
  an RSA tag, with an ECDSA tag on an RSA key, and without a validity; and read requests
  without and with an identity.
\<close>

definition alice :: TLSCertCreateReq where
  "alice =
     \<lparr> Ts = Some \<lparr> Seconds = 3600 \<rparr>,
       CreateReq_Id = Some \<lparr> Identity_Id = ''alice'' \<rparr>,
       Pub = Some \<lparr> PublicKey_Type = CryptoType_ECDSA, Key = ''EC'' \<rparr>,
       Sig = Some \<lparr> R = ''12'', S = ''7'' \<rparr> \<rparr>"

definition alice_trailing :: TLSCertCreateReq where
  "alice_trailing = alice \<lparr> Sig := Some \<lparr> R = ''12x'', S = ''7'' \<rparr> \<rparr>"

definition alice_forged :: TLSCertCreateReq where
  "alice_forged = alice \<lparr> Sig := Some \<lparr> R = ''12'', S = ''seven'' \<rparr> \<rparr>"

definition alice_unsigned_rsa :: TLSCertCreateReq where
  "alice_unsigned_rsa =
     alice \<lparr> Pub := Some \<lparr> PublicKey_Type = CryptoType_RSA, Key = ''RSA'' \<rparr>, Sig := None \<rparr>"

definition alice_rsa :: TLSCertCreateReq where
  "alice_rsa =
     alice \<lparr> Pub := Some \<lparr> PublicKey_Type = CryptoType_RSA, Key = ''RSA'' \<rparr> \<rparr>"

definition alice_mistagged :: TLSCertCreateReq where
  "alice_mistagged =
     alice \<lparr> Pub := Some \<lparr> PublicKey_Type = CryptoType_ECDSA, Key = ''RSA'' \<rparr> \<rparr>"

definition alice_undated :: TLSCertCreateReq where
  "alice_undated = alice \<lparr> Ts := None \<rparr>"

definition anonymous_read :: TLSCertReadReq where
  "anonymous_read = \<lparr> ReadReq_Id = None \<rparr>"

definition alice_read :: TLSCertReadReq where
  "alice_read = \<lparr> ReadReq_Id = Some \<lparr> Identity_Id = ''alice'' \<rparr> \<rparr>"

section \<open>Properties\<close>

lemmas create_defs =
  TLSCAP_CreateCertificate_def Let_def sha3_New384_def hash_Write_def hash_Sum_def

lemmas double_defs =
  double_def double_UnmarshalText_def double_ParsePKIXPublicKey_def double_Marshal_def
  double_Verify_def double_createCertificate_def double_readCertificate_def
  tlsca0_def tlscap0_def tlscaa0_def
  alice_def alice_trailing_def alice_forged_def alice_unsigned_rsa_def alice_rsa_def
  alice_mistagged_def alice_undated_def alice_read_def anonymous_read_def

subsection \<open>CreateCertificate: the verification\<close>

text \<open>
  Claim C1. A request passes the key-type check when the method gets as far as the check
  and beyond it: it carries an identity, a signature and a public key, and the key's tag
  is ECDSA. When its key bytes parse as an ECDSA key, the method then makes exactly these
  calls, in this order: \<^verbatim>\<open>UnmarshalText\<close> on \<open>r\<close> and on \<open>s\<close>, the parse of the key,
  \<^verbatim>\<open>proto.Marshal\<close> of the request whose signature field is nil, \<^verbatim>\<open>Write\<close> of the
  marshalled bytes into the SHA3-384 hash, \<^verbatim>\<open>Sum\<close>, and \<^verbatim>\<open>ecdsa.Verify\<close> of the
  parsed key, the digest and the two numbers. Nothing else is written to the hash, and
  what is written is the same whatever signature the request carries. When the
  verification fails the method returns ``signature does not verify'', and it returns a
  response only when the verification succeeds.
\<close>

theorem CreateCertificate_verification:
  assumes "CreateReq_Id req = Some ident" and "Sig req = Some sg" and "Pub req = Some pk"
    and "PublicKey_Type pk = CryptoType_ECDSA"
    and "x509_ParsePKIXPublicKey E (Key pk) = Inr (ptr_ecdsa_PublicKey key)"
  shows "let out = TLSCAP_CreateCertificate E tlscap ctx req;
             req1 = req \<lparr> Sig := None \<rparr>;
             raw1 = fst (proto_Marshal E req1);
             digest = sha3_384 E raw1;
             r = fst (big_UnmarshalText E 0 (R sg));
             s = fst (big_UnmarshalText E 0 (S sg))
         in take 8 (calls out) =
              [CallPrintln Trace ''grpc TLSCAP:CreateCertificate'',
               CallUnmarshalText (R sg), CallUnmarshalText (S sg),
               CallParsePKIXPublicKey (Key pk),
               CallMarshal req1, CallHashWrite raw1, CallHashSum digest,
               CallVerify key digest r s]
          \<and> Sig req1 = None
          \<and> hashed (calls out) = [raw1]
          \<and> (\<forall>sg'. hashed (calls (TLSCAP_CreateCertificate E tlscap ctx
                                     (req \<lparr> Sig := Some sg' \<rparr>))) = [raw1])
          \<and> (\<not> ecdsa_Verify E key digest r s \<longrightarrow>
                result out = Returns (Inl (errors_New ''signature does not verify'')))
          \<and> ((\<exists>resp. result out = Returns (Inr resp)) \<longrightarrow> ecdsa_Verify E key digest r s)"
  using assms
  by (simp add: create_defs split: option.split sum.split prod.split)

text \<open>
  On the doubles: the request of alice is verified over \<open>''aliceEC''\<close>, and so is the
  request that differs from it in the signature only.
\<close>

theorem CreateCertificate_verification_witness:
  "CreateReq_Id alice = Some \<lparr> Identity_Id = ''alice'' \<rparr>
   \<and> Sig alice = Some \<lparr> R = ''12'', S = ''7'' \<rparr>
   \<and> x509_ParsePKIXPublicKey double ''EC'' =
       Inr (ptr_ecdsa_PublicKey \<lparr> ecdsa_Curve = P384, ecdsa_X = 5, ecdsa_Y = 7 \<rparr>)
   \<and> take 8 (calls (TLSCAP_CreateCertificate double tlscap0 () alice)) =
       [CallPrintln Trace ''grpc TLSCAP:CreateCertificate'',
        CallUnmarshalText ''12'', CallUnmarshalText ''7'', CallParsePKIXPublicKey ''EC'',
        CallMarshal (alice \<lparr> Sig := None \<rparr>), CallHashWrite ''aliceEC'',
        CallHashSum ''CEecila'',
        CallVerify \<lparr> ecdsa_Curve = P384, ecdsa_X = 5, ecdsa_Y = 7 \<rparr> ''CEecila'' 12 7]
   \<and> hashed (calls (TLSCAP_CreateCertificate double tlscap0 () alice)) = [''aliceEC'']
   \<and> hashed (calls (TLSCAP_CreateCertificate double tlscap0 () alice_forged)) = [''aliceEC'']"
  using CreateCertificate_verification
    [of alice "\<lparr> Identity_Id = ''alice'' \<rparr>" "\<lparr> R = ''12'', S = ''7'' \<rparr>"
      "\<lparr> PublicKey_Type = CryptoType_ECDSA, Key = ''EC'' \<rparr>" double
      "\<lparr> ecdsa_Curve = P384, ecdsa_X = 5, ecdsa_Y = 7 \<rparr>" tlscap0 "()"]
  by (simp add: double_defs Let_def)

subsection \<open>CreateCertificate: failures and the store\<close>

text \<open>
  Claim C2. When the key's tag is not ECDSA, or the key bytes do not parse, or the
  signature does not verify, \<^verbatim>\<open>createCertificate\<close> is not called (no call of the method
  reaches the store) and the authority, with its store, is as it was.
\<close>

theorem CreateCertificate_failure_spares_store:
  assumes "(\<exists>pk. Pub req = Some pk \<and> PublicKey_Type pk \<noteq> CryptoType_ECDSA)
         \<or> (\<exists>pk err. Pub req = Some pk \<and> x509_ParsePKIXPublicKey E (Key pk) = Inl err)
         \<or> (\<exists>pk key sg. Pub req = Some pk \<and> Sig req = Some sg
              \<and> x509_ParsePKIXPublicKey E (Key pk) = Inr (ptr_ecdsa_PublicKey key)
              \<and> \<not> ecdsa_Verify E key
                    (sha3_384 E (fst (proto_Marshal E (req \<lparr> Sig := None \<rparr>))))
                    (fst (big_UnmarshalText E 0 (R sg))) (fst (big_UnmarshalText E 0 (S sg))))"
  shows "filter store_call (calls (TLSCAP_CreateCertificate E tlscap ctx req)) = []
       \<and> authority (TLSCAP_CreateCertificate E tlscap ctx req) = tlsca tlscap"
  using assms
  by (auto simp add: create_defs split: option.split sum.split prod.split any_key.split)

theorem CreateCertificate_failure_spares_store_witness:
  "Pub alice_forged = Some \<lparr> PublicKey_Type = CryptoType_ECDSA, Key = ''EC'' \<rparr>
   \<and> Sig alice_forged = Some \<lparr> R = ''12'', S = ''seven'' \<rparr>
   \<and> \<not> ecdsa_Verify double \<lparr> ecdsa_Curve = P384, ecdsa_X = 5, ecdsa_Y = 7 \<rparr>
         (sha3_384 double (fst (proto_Marshal double (alice_forged \<lparr> Sig := None \<rparr>))))
         (fst (big_UnmarshalText double 0 ''12'')) (fst (big_UnmarshalText double 0 ''seven''))
   \<and> filter store_call (calls (TLSCAP_CreateCertificate double tlscap0 () alice_forged)) = []
   \<and> authority (TLSCAP_CreateCertificate double tlscap0 () alice_forged) = tlsca0"
  using CreateCertificate_failure_spares_store [of alice_forged double tlscap0 "()"]
  by (simp add: double_defs)

subsection \<open>CreateCertificate: the key-type check\<close>

text \<open>
  The signature is read before the key's tag is looked at: a request with an RSA tag and
  no signature ends in a nil dereference at \<^verbatim>\<open>sig.R\<close>, not in ``unsupported key type''.
\<close>

theorem CreateCertificate_unsigned_request_panics:
  "map_option PublicKey_Type (Pub alice_unsigned_rsa) = Some CryptoType_RSA
   \<and> CryptoType_RSA \<noteq> CryptoType_ECDSA
   \<and> result (TLSCAP_CreateCertificate double tlscap0 () alice_unsigned_rsa)
       = Panics nil_pointer_dereference
   \<and> result (TLSCAP_CreateCertificate double tlscap0 () alice_unsigned_rsa)
       \<noteq> Returns (Inl (errors_New ''unsupported key type''))"
  by (simp add: create_defs double_defs)

text \<open>
  Claim C3, for the requests that carry an identity and a signature. When the key's tag
  is not ECDSA the method returns ``unsupported key type'', which is not the error
  ``signature does not verify''; it has then called \<^verbatim>\<open>UnmarshalText\<close> on \<open>r\<close> and on
  \<open>s\<close> and nothing else: it has not marshalled, hashed or verified.
\<close>

theorem CreateCertificate_unsupported_key_type:
  assumes "CreateReq_Id req = Some ident" and "Sig req = Some sg" and "Pub req = Some pk"
    and "PublicKey_Type pk \<noteq> CryptoType_ECDSA"
  shows "result (TLSCAP_CreateCertificate E tlscap ctx req)
           = Returns (Inl (errors_New ''unsupported key type''))
       \<and> result (TLSCAP_CreateCertificate E tlscap ctx req)
           \<noteq> Returns (Inl (errors_New ''signature does not verify''))
       \<and> filter crypto_call (calls (TLSCAP_CreateCertificate E tlscap ctx req)) = []
       \<and> calls (TLSCAP_CreateCertificate E tlscap ctx req) =
           [CallPrintln Trace ''grpc TLSCAP:CreateCertificate'',
            CallUnmarshalText (R sg), CallUnmarshalText (S sg)]"
  using assms by (simp add: create_defs)

theorem CreateCertificate_unsupported_key_type_witness:
  "CreateReq_Id alice_rsa = Some \<lparr> Identity_Id = ''alice'' \<rparr>
   \<and> Sig alice_rsa = Some \<lparr> R = ''12'', S = ''7'' \<rparr>
   \<and> Pub alice_rsa = Some \<lparr> PublicKey_Type = CryptoType_RSA, Key = ''RSA'' \<rparr>
   \<and> result (TLSCAP_CreateCertificate double tlscap0 () alice_rsa)
       = Returns (Inl (errors_New ''unsupported key type''))
   \<and> filter crypto_call (calls (TLSCAP_CreateCertificate double tlscap0 () alice_rsa)) = []"
  using CreateCertificate_unsupported_key_type
    [of alice_rsa "\<lparr> Identity_Id = ''alice'' \<rparr>" "\<lparr> R = ''12'', S = ''7'' \<rparr>"
      "\<lparr> PublicKey_Type = CryptoType_RSA, Key = ''RSA'' \<rparr>" double tlscap0 "()"]
  by (simp add: double_defs)

subsection \<open>CreateCertificate: signature text that does not parse\<close>

text \<open>
  The method drops the error of \<^verbatim>\<open>UnmarshalText\<close> (lines 99 and 100) and verifies
  whatever number the call left in the receiver; \<^verbatim>\<open>math/big\<close> documents that value as
  undefined after a failure, and its scanner leaves there the digits it read before the
  byte it could not read. With text left over after the digits (\<open>''12x''\<close>) the parse
  fails and leaves 12, the verification of \<open>(12, 7)\<close> succeeds as it does for the
  well-formed request of alice, and the certificate is issued.
\<close>

theorem CreateCertificate_unparsed_signature_accepted:
  "Sig alice_trailing = Some \<lparr> R = ''12x'', S = ''7'' \<rparr>
   \<and> big_UnmarshalText double 0 ''12x'' = (12, Some (errors_New ''math/big: cannot unmarshal''))
   \<and> Pub alice_trailing = Some \<lparr> PublicKey_Type = CryptoType_ECDSA, Key = ''EC'' \<rparr>
   \<and> x509_ParsePKIXPublicKey double ''EC'' =
       Inr (ptr_ecdsa_PublicKey \<lparr> ecdsa_Curve = P384, ecdsa_X = 5, ecdsa_Y = 7 \<rparr>)
   \<and> result (TLSCAP_CreateCertificate double tlscap0 () alice_trailing)
       = Returns (Inr (TLSCertCreateResp (Cert ''cert-alice'')))
   \<and> result (TLSCAP_CreateCertificate double tlscap0 () alice_trailing)
       \<noteq> Returns (Inl (errors_New ''signature does not verify''))"
  by (simp add: create_defs double_defs)

text \<open>
  Claim C4, as the code has it. For a request that carries an identity, with an ECDSA tag
  and key bytes that parse as an ECDSA key, whose \<open>r\<close> or \<open>s\<close> does not parse: the
  method does not stop at the parse failure. It marshals the request, hashes it and
  verifies the numbers left in \<open>r\<close> and \<open>s\<close>; whenever that verification rejects them
  it returns ``signature does not verify'', having made these calls and no other.
\<close>

theorem CreateCertificate_unparsed_signature:
  assumes "CreateReq_Id req = Some ident" and "Sig req = Some sg" and "Pub req = Some pk"
    and "PublicKey_Type pk = CryptoType_ECDSA"
    and "x509_ParsePKIXPublicKey E (Key pk) = Inr (ptr_ecdsa_PublicKey key)"
    and "snd (big_UnmarshalText E 0 (R sg)) \<noteq> None \<or> snd (big_UnmarshalText E 0 (S sg)) \<noteq> None"
  shows "let out = TLSCAP_CreateCertificate E tlscap ctx req;
             req1 = req \<lparr> Sig := None \<rparr>;
             raw1 = fst (proto_Marshal E req1);
             digest = sha3_384 E raw1;
             r = fst (big_UnmarshalText E 0 (R sg));
             s = fst (big_UnmarshalText E 0 (S sg));
             hashing =
               [CallPrintln Trace ''grpc TLSCAP:CreateCertificate'',
                CallUnmarshalText (R sg), CallUnmarshalText (S sg),
                CallParsePKIXPublicKey (Key pk),
                CallMarshal req1, CallHashWrite raw1, CallHashSum digest,
                CallVerify key digest r s]
         in take 8 (calls out) = hashing
          \<and> (\<not> ecdsa_Verify E key digest r s \<longrightarrow>
                result out = Returns (Inl (errors_New ''signature does not verify''))
                \<and> calls out = hashing)"
  using assms(1-5)
  by (simp add: create_defs split: option.split sum.split prod.split)

text \<open>
  On the doubles: \<open>''seven''\<close> does not parse and leaves 0, which the verification
  rejects.
\<close>

theorem CreateCertificate_unparsed_signature_witness:
  "CreateReq_Id alice_forged = Some \<lparr> Identity_Id = ''alice'' \<rparr>
   \<and> Sig alice_forged = Some \<lparr> R = ''12'', S = ''seven'' \<rparr>
   \<and> Pub alice_forged = Some \<lparr> PublicKey_Type = CryptoType_ECDSA, Key = ''EC'' \<rparr>
   \<and> big_UnmarshalText double 0 ''seven'' = (0, Some (errors_New ''math/big: cannot unmarshal''))
   \<and> result (TLSCAP_CreateCertificate double tlscap0 () alice_forged)
       = Returns (Inl (errors_New ''signature does not verify''))
   \<and> calls (TLSCAP_CreateCertificate double tlscap0 () alice_forged) =
       [CallPrintln Trace ''grpc TLSCAP:CreateCertificate'',
        CallUnmarshalText ''12'', CallUnmarshalText ''seven'', CallParsePKIXPublicKey ''EC'',
        CallMarshal (alice_forged \<lparr> Sig := None \<rparr>), CallHashWrite ''aliceEC'',
        CallHashSum ''CEecila'',
        CallVerify \<lparr> ecdsa_Curve = P384, ecdsa_X = 5, ecdsa_Y = 7 \<rparr> ''CEecila'' 12 0]"
  using CreateCertificate_unparsed_signature
    [of alice_forged "\<lparr> Identity_Id = ''alice'' \<rparr>" "\<lparr> R = ''12'', S = ''seven'' \<rparr>"
      "\<lparr> PublicKey_Type = CryptoType_ECDSA, Key = ''EC'' \<rparr>" double
      "\<lparr> ecdsa_Curve = P384, ecdsa_X = 5, ecdsa_Y = 7 \<rparr>" tlscap0 "()"]
  by (simp add: double_defs Let_def)

subsection \<open>CreateCertificate: the request object\<close>

text \<open>
  \<^verbatim>\<open>req.Sig = nil\<close> writes through the pointer the method was given: after the call
  has returned the certificate, the request of alice has no signature any more.
\<close>

theorem CreateCertificate_clears_signature_in_place:
  "result (TLSCAP_CreateCertificate double tlscap0 () alice)
     = Returns (Inr (TLSCertCreateResp (Cert ''cert-alice'')))
   \<and> Sig alice = Some \<lparr> R = ''12'', S = ''7'' \<rparr>
   \<and> Sig (request (TLSCAP_CreateCertificate double tlscap0 () alice)) = None
   \<and> request (TLSCAP_CreateCertificate double tlscap0 () alice) \<noteq> alice"
  by (simp add: create_defs double_defs)

text \<open>
  Claim C5, as the code has it. The method makes no copy: whenever it returns, with a
  response or with an error, the request object is the request it received with the
  signature field set to nil, every other field as it was; the request did carry a
  signature, so the object has changed.
\<close>

theorem CreateCertificate_request_after_return:
  assumes "result (TLSCAP_CreateCertificate E tlscap ctx req) = Returns x"
  shows "request (TLSCAP_CreateCertificate E tlscap ctx req) = req \<lparr> Sig := None \<rparr>
       \<and> Sig req \<noteq> None
       \<and> request (TLSCAP_CreateCertificate E tlscap ctx req) \<noteq> req"
proof -
  let ?out = "TLSCAP_CreateCertificate E tlscap ctx req"
  from assms obtain ident where i: "CreateReq_Id req = Some ident"
    by (cases "CreateReq_Id req") (auto simp add: create_defs)
  from assms i obtain sg where s: "Sig req = Some sg"
    by (cases "Sig req") (auto simp add: create_defs)
  have "request ?out = req \<lparr> Sig := None \<rparr>"
    using i s
    by (simp add: create_defs split: option.split sum.split prod.split any_key.split)
  moreover have "req \<lparr> Sig := None \<rparr> \<noteq> req"
  proof
    assume "req \<lparr> Sig := None \<rparr> = req"
    then have "Sig (req \<lparr> Sig := None \<rparr>) = Sig req" by simp
    with s show False by simp
  qed
  ultimately show ?thesis using s by simp
qed

theorem CreateCertificate_request_after_return_witness:
  "result (TLSCAP_CreateCertificate double tlscap0 () alice_forged)
     = Returns (Inl (errors_New ''signature does not verify''))
   \<and> request (TLSCAP_CreateCertificate double tlscap0 () alice_forged)
       = alice_forged \<lparr> Sig := None \<rparr>
   \<and> Sig alice_forged \<noteq> None"
proof -
  have r: "result (TLSCAP_CreateCertificate double tlscap0 () alice_forged)
     = Returns (Inl (errors_New ''signature does not verify''))"
    by (simp add: create_defs double_defs)
  from CreateCertificate_request_after_return [OF r] r show ?thesis by simp
qed

subsection \<open>CreateCertificate: the store\<close>

text \<open>
  \<^verbatim>\<open>req.Ts.Seconds\<close> is read when the arguments of \<^verbatim>\<open>createCertificate\<close> are
  evaluated: a request that passes the verification and carries no validity ends in a nil
  dereference, and the store is not called.
\<close>

theorem CreateCertificate_undated_request_panics:
  "map_option PublicKey_Type (Pub alice_undated) = Some CryptoType_ECDSA
   \<and> ecdsa_Verify double \<lparr> ecdsa_Curve = P384, ecdsa_X = 5, ecdsa_Y = 7 \<rparr>
        (sha3_384 double (fst (proto_Marshal double (alice_undated \<lparr> Sig := None \<rparr>))))
        (fst (big_UnmarshalText double 0 ''12'')) (fst (big_UnmarshalText double 0 ''7''))
   \<and> Ts alice_undated = None
   \<and> result (TLSCAP_CreateCertificate double tlscap0 () alice_undated)
       = Panics nil_pointer_dereference
   \<and> filter store_call (calls (TLSCAP_CreateCertificate double tlscap0 () alice_undated)) = []"
  by (simp add: create_defs double_defs)

text \<open>
  Claim C6, for the requests that carry a validity. When the request passes the
  verification, the method calls the store once, with \<^verbatim>\<open>createCertificate\<close> of the
  request's identity, the parsed key, \<^verbatim>\<open>x509.KeyUsageKeyAgreement\<close> and the seconds of
  the request's validity; the authority is left as the store left it; the bytes the store
  returns are the bytes of the certificate in the response, and the error the store
  returns is the error of the method.
\<close>

theorem CreateCertificate_delegates_to_store:
  assumes "CreateReq_Id req = Some ident" and "Sig req = Some sg" and "Pub req = Some pk"
    and "PublicKey_Type pk = CryptoType_ECDSA"
    and "x509_ParsePKIXPublicKey E (Key pk) = Inr (ptr_ecdsa_PublicKey key)"
    and "ecdsa_Verify E key (sha3_384 E (fst (proto_Marshal E (req \<lparr> Sig := None \<rparr>))))
           (fst (big_UnmarshalText E 0 (R sg))) (fst (big_UnmarshalText E 0 (S sg)))"
    and "Ts req = Some ts"
  shows "let out = TLSCAP_CreateCertificate E tlscap ctx req;
             stored = ca_createCertificate E (tlsca tlscap) (Identity_Id ident) key
                        KeyUsageKeyAgreement (Seconds ts)
         in filter store_call (calls out) =
              [CallCreateCertificate (Identity_Id ident) key KeyUsageKeyAgreement (Seconds ts)]
          \<and> authority out = snd stored
          \<and> (\<forall>b. fst stored = Inr b \<longrightarrow>
                 result out = Returns (Inr (TLSCertCreateResp (Cert b))))
          \<and> (\<forall>e. fst stored = Inl e \<longrightarrow> result out = Returns (Inl e))"
  using assms
  by (simp add: create_defs split: sum.split prod.split)

theorem CreateCertificate_delegates_to_store_witness:
  "CreateReq_Id alice = Some \<lparr> Identity_Id = ''alice'' \<rparr>
   \<and> Ts alice = Some \<lparr> Seconds = 3600 \<rparr>
   \<and> ecdsa_Verify double \<lparr> ecdsa_Curve = P384, ecdsa_X = 5, ecdsa_Y = 7 \<rparr>
        (sha3_384 double (fst (proto_Marshal double (alice \<lparr> Sig := None \<rparr>))))
        (fst (big_UnmarshalText double 0 ''12'')) (fst (big_UnmarshalText double 0 ''7''))
   \<and> filter store_call (calls (TLSCAP_CreateCertificate double tlscap0 () alice)) =
       [CallCreateCertificate ''alice'' \<lparr> ecdsa_Curve = P384, ecdsa_X = 5, ecdsa_Y = 7 \<rparr>
          KeyUsageKeyAgreement 3600]
   \<and> ca_createCertificate double tlsca0 ''alice''
         \<lparr> ecdsa_Curve = P384, ecdsa_X = 5, ecdsa_Y = 7 \<rparr> KeyUsageKeyAgreement 3600
       = (Inr ''cert-alice'', tlsca0 \<lparr> db := [(''alice'', ''cert-alice'')] \<rparr>)
   \<and> result (TLSCAP_CreateCertificate double tlscap0 () alice)
       = Returns (Inr (TLSCertCreateResp (Cert ''cert-alice'')))
   \<and> authority (TLSCAP_CreateCertificate double tlscap0 () alice)
       = tlsca0 \<lparr> db := [(''alice'', ''cert-alice'')] \<rparr>"
  using CreateCertificate_delegates_to_store
    [of alice "\<lparr> Identity_Id = ''alice'' \<rparr>" "\<lparr> R = ''12'', S = ''7'' \<rparr>"
      "\<lparr> PublicKey_Type = CryptoType_ECDSA, Key = ''EC'' \<rparr>" double
      "\<lparr> ecdsa_Curve = P384, ecdsa_X = 5, ecdsa_Y = 7 \<rparr>" "\<lparr> Seconds = 3600 \<rparr>"
      tlscap0 "()"]
  by (simp add: double_defs Let_def)

subsection \<open>CreateCertificate: the type assertion\<close>

text \<open>
  Claim C9 fails on the code. The check of line 103 looks at the tag the request
  declares, not at the key that \<^verbatim>\<open>x509.ParsePKIXPublicKey\<close> returns. For a request that
  carries an identity and a signature, with an ECDSA tag and key bytes that parse as a
  key of another algorithm, the assertion \<^verbatim>\<open>pub.(*ecdsa.PublicKey)\<close> of line 114 fails:
  the method panics and returns no error.
\<close>

theorem CreateCertificate_mistagged_key_panics:
  assumes "CreateReq_Id req = Some ident" and "Sig req = Some sg" and "Pub req = Some pk"
    and "PublicKey_Type pk = CryptoType_ECDSA"
    and "x509_ParsePKIXPublicKey E (Key pk) = Inr pub"
    and "\<forall>key. pub \<noteq> ptr_ecdsa_PublicKey key"
  shows "result (TLSCAP_CreateCertificate E tlscap ctx req) = Panics interface_conversion"
  using assms
  by (cases pub) (simp_all add: create_defs)

theorem CreateCertificate_mistagged_key_panics_witness:
  "CreateReq_Id alice_mistagged = Some \<lparr> Identity_Id = ''alice'' \<rparr>
   \<and> Sig alice_mistagged = Some \<lparr> R = ''12'', S = ''7'' \<rparr>
   \<and> Pub alice_mistagged = Some \<lparr> PublicKey_Type = CryptoType_ECDSA, Key = ''RSA'' \<rparr>
   \<and> x509_ParsePKIXPublicKey double ''RSA''
       = Inr (ptr_rsa_PublicKey \<lparr> rsa_N = 3233, rsa_E = 17 \<rparr>)
   \<and> result (TLSCAP_CreateCertificate double tlscap0 () alice_mistagged)
       = Panics interface_conversion"
  using CreateCertificate_mistagged_key_panics
    [of alice_mistagged "\<lparr> Identity_Id = ''alice'' \<rparr>" "\<lparr> R = ''12'', S = ''7'' \<rparr>"
      "\<lparr> PublicKey_Type = CryptoType_ECDSA, Key = ''RSA'' \<rparr>" double
      "ptr_rsa_PublicKey \<lparr> rsa_N = 3233, rsa_E = 17 \<rparr>" tlscap0 "()"]
  by (simp add: double_defs)

subsection \<open>ReadCertificate\<close>

text \<open>
  \<^verbatim>\<open>req.Id.Id\<close> is read before the store is called: a read request without an identity
  ends in a nil dereference, and the store is not called.
\<close>

theorem ReadCertificate_anonymous_request_panics:
  "ReadReq_Id anonymous_read = None
   \<and> result (TLSCAP_ReadCertificate double tlscap0 () anonymous_read)
       = Panics nil_pointer_dereference
   \<and> filter store_call (calls (TLSCAP_ReadCertificate double tlscap0 () anonymous_read)) = []"
  by (simp add: TLSCAP_ReadCertificate_def double_defs)

text \<open>
  Claim C7, for the requests that carry an identity. The method logs and calls
  \<^verbatim>\<open>readCertificate\<close> of the request's identity and \<^verbatim>\<open>x509.KeyUsageKeyAgreement\<close>, and
  makes no other call: it does not marshal, hash or verify. The bytes the store returns
  are the bytes of the certificate it returns, and the error the store returns is the
  error it returns.
\<close>

theorem ReadCertificate_delegates_to_store:
  assumes "ReadReq_Id req = Some ident"
  shows "let out = TLSCAP_ReadCertificate E tlscap ctx req;
             looked = ca_readCertificate E (tlsca tlscap) (Identity_Id ident)
                        KeyUsageKeyAgreement
         in calls out =
              [CallPrintln Trace ''grpc TLSCAP:ReadCertificate'',
               CallReadCertificate (Identity_Id ident) KeyUsageKeyAgreement]
          \<and> filter crypto_call (calls out) = []
          \<and> (\<forall>b. fst looked = Inr b \<longrightarrow> result out = Returns (Inr (Cert b)))
          \<and> (\<forall>e. fst looked = Inl e \<longrightarrow> result out = Returns (Inl e))
          \<and> authority out = snd looked"
  using assms
  by (simp add: TLSCAP_ReadCertificate_def Let_def split: sum.split prod.split)

text \<open>
  On the doubles: alice's certificate is read back from the authority that issued it,
  and is not found in the empty store.
\<close>

theorem ReadCertificate_delegates_to_store_witness:
  "ReadReq_Id alice_read = Some \<lparr> Identity_Id = ''alice'' \<rparr>
   \<and> ca_readCertificate double (authority (TLSCAP_CreateCertificate double tlscap0 () alice))
         ''alice'' KeyUsageKeyAgreement
       = (Inr ''cert-alice'', authority (TLSCAP_CreateCertificate double tlscap0 () alice))
   \<and> result (TLSCAP_ReadCertificate double
         \<lparr> tlsca = authority (TLSCAP_CreateCertificate double tlscap0 () alice) \<rparr> ()
         alice_read)
       = Returns (Inr (Cert ''cert-alice''))
   \<and> result (TLSCAP_ReadCertificate double tlscap0 () alice_read)
       = Returns (Inl (errors_New ''sql: no rows in result set''))"
  using ReadCertificate_delegates_to_store
      [of alice_read "\<lparr> Identity_Id = ''alice'' \<rparr>" double
        "\<lparr> tlsca = authority (TLSCAP_CreateCertificate double tlscap0 () alice) \<rparr>" "()"]
    ReadCertificate_delegates_to_store
      [of alice_read "\<lparr> Identity_Id = ''alice'' \<rparr>" double tlscap0 "()"]
  by (simp add: create_defs double_defs)

subsection \<open>RevokeCertificate\<close>

text \<open>
  Claim C8. On the public and on the administrator interface, whatever the request,
  \<^verbatim>\<open>RevokeCertificate\<close> returns the error ``not yet implemented'' and no status; it
  leaves the authority as it was and makes no call that reaches the store.
\<close>

theorem RevokeCertificate_not_implemented:
  "result (TLSCAP_RevokeCertificate tlscap ctx req)
     = Returns (Inl (errors_New ''not yet implemented''))
   \<and> result (TLSCAA_RevokeCertificate tlscaa ctx' req')
     = Returns (Inl (errors_New ''not yet implemented''))
   \<and> authority (TLSCAP_RevokeCertificate tlscap ctx req) = tlsca tlscap
   \<and> authority (TLSCAA_RevokeCertificate tlscaa ctx' req') = tlsca_a tlscaa
   \<and> filter store_call (calls (TLSCAP_RevokeCertificate tlscap ctx req)) = []
   \<and> filter store_call (calls (TLSCAA_RevokeCertificate tlscaa ctx' req')) = []
   \<and> request (TLSCAP_RevokeCertificate tlscap ctx req) = req
   \<and> request (TLSCAA_RevokeCertificate tlscaa ctx' req') = req'"
  by (simp add: TLSCAP_RevokeCertificate_def TLSCAA_RevokeCertificate_def)

subsection \<open>ReadCACertificate\<close>

text \<open>
  Claim C10. \<^verbatim>\<open>ReadCACertificate\<close> returns the raw bytes of the authority's certificate
  and no error, whatever its arguments; it leaves its argument and the authority as they
  were and makes no call that reaches the store.
\<close>

theorem ReadCACertificate_returns_raw:
  "result (TLSCAP_ReadCACertificate tlscap ctx inp) = Returns (Inr (Cert (raw (tlsca tlscap))))
   \<and> result (TLSCAP_ReadCACertificate tlscap ctx' inp')
       = result (TLSCAP_ReadCACertificate tlscap ctx inp)
   \<and> authority (TLSCAP_ReadCACertificate tlscap ctx inp) = tlsca tlscap
   \<and> request (TLSCAP_ReadCACertificate tlscap ctx inp) = inp
   \<and> filter store_call (calls (TLSCAP_ReadCACertificate tlscap ctx inp)) = []"
  by (simp add: TLSCAP_ReadCACertificate_def)

end
